theory Spec2Isabelle
  imports Complex_Main "HOL-Library.Char_ord" "HOL-Library.List_Lexorder"
begin

section \<open>Data model\<close>

text \<open>
  The dashboard script \<^verbatim>\<open>app.py\<close> works on a pandas DataFrame read from a CSV file.
  A row carries the five columns the script touches. The three impact columns are
  float64 columns in which a missing cell is NaN: a cell is a \<open>real option\<close>, with
  \<open>None\<close> for NaN. A DataFrame is the list of its rows, in file order; a column
  (a Series) is the list of its cells.
\<close>

record disaster_record =
  year :: int
  disaster_type :: string
  total_deaths :: "real option"
  total_affected :: "real option"
  total_damages :: "real option"

type_synonym dataframe = "disaster_record list"

text \<open>
  The exceptions a run of the script can end with: \<^verbatim>\<open>ValueError\<close> of \<^verbatim>\<open>min\<close> and
  \<^verbatim>\<open>max\<close> on an empty list, \<^verbatim>\<open>StreamlitAPIException\<close> of the slider, \<^verbatim>\<open>IndexError\<close>
  of the bar plot.
\<close>

datatype py_error = ValueError | IndexError | StreamlitAPIException

section \<open>The pandas operations the script calls\<close>

text \<open>\<^verbatim>\<open>Series.isin(values)\<close>: one boolean per cell.\<close>

definition isin :: "'a list \<Rightarrow> 'a list \<Rightarrow> bool list" where
  "isin col vals = map (\<lambda>v. v \<in> set vals) col"

text \<open>\<^verbatim>\<open>Series.between(left, right)\<close>: both bounds inclusive.\<close>

definition between :: "int list \<Rightarrow> int \<Rightarrow> int \<Rightarrow> bool list" where
  "between col left right = map (\<lambda>v. left \<le> v \<and> v \<le> right) col"

text \<open>The elementwise \<^verbatim>\<open>&\<close> of two boolean Series.\<close>

definition mask_and :: "bool list \<Rightarrow> bool list \<Rightarrow> bool list" where
  "mask_and a b = map2 (\<and>) a b"

text \<open>\<^verbatim>\<open>df[mask]\<close>: the rows whose mask entry is True, in order.\<close>

definition boolean_index :: "'a list \<Rightarrow> bool list \<Rightarrow> 'a list" where
  "boolean_index df msk = map fst (filter snd (zip df msk))"

text \<open>\<^verbatim>\<open>Series.fillna(value)\<close>: a NaN fill value leaves the NaN cells as they are.\<close>

definition fillna :: "real option list \<Rightarrow> real option \<Rightarrow> real option list" where
  "fillna col val = map (\<lambda>v. case v of None \<Rightarrow> val | Some x \<Rightarrow> Some x) col"

text \<open>\<^verbatim>\<open>Series.sum()\<close> skips NaN and is 0 on an empty column.\<close>

definition col_sum :: "real option list \<Rightarrow> real" where
  "col_sum col = sum_list (map (\<lambda>v. case v of None \<Rightarrow> 0 | Some x \<Rightarrow> x) col)"

text \<open>
  \<^verbatim>\<open>Series.mean()\<close> skips NaN: the sum of the present cells over their count,
  and NaN when no cell is present.
\<close>

definition mean :: "real option list \<Rightarrow> real option" where
  "mean col =
     (let count = length (filter (\<lambda>v. v \<noteq> None) col)
      in if 0 < count then Some (col_sum col / real count) else None)"

text \<open>\<^verbatim>\<open>Series.unique()\<close>: the distinct values in order of first appearance.\<close>

fun unique :: "'a list \<Rightarrow> 'a list" where
  "unique [] = []"
| "unique (x # xs) = x # unique (filter (\<lambda>y. y \<noteq> x) xs)"

text \<open>Python's \<^verbatim>\<open>min\<close> and \<^verbatim>\<open>max\<close> raise ValueError on an empty sequence.\<close>

fun py_min :: "int list \<Rightarrow> py_error + int" where
  "py_min [] = Inl ValueError"
| "py_min (x # xs) = Inr (fold min xs x)"

fun py_max :: "int list \<Rightarrow> py_error + int" where
  "py_max [] = Inl ValueError"
| "py_max (x # xs) = Inr (fold max xs x)"

text \<open>Column assignment \<^verbatim>\<open>df[c] = series\<close>, for the three impact columns.\<close>

definition assign_deaths :: "dataframe \<Rightarrow> real option list \<Rightarrow> dataframe" where
  "assign_deaths df col = map2 (\<lambda>r v. r\<lparr>total_deaths := v\<rparr>) df col"

definition assign_affected :: "dataframe \<Rightarrow> real option list \<Rightarrow> dataframe" where
  "assign_affected df col = map2 (\<lambda>r v. r\<lparr>total_affected := v\<rparr>) df col"

definition assign_damages :: "dataframe \<Rightarrow> real option list \<Rightarrow> dataframe" where
  "assign_damages df col = map2 (\<lambda>r v. r\<lparr>total_damages := v\<rparr>) df col"

section \<open>Preprocessing (lines 39 to 47)\<close>

definition climate_disasters :: "string list" where
  "climate_disasters = [''Flood'', ''Storm'', ''Wildfire'', ''Extreme temperature'']"

text \<open>\<^verbatim>\<open>df[df['Disaster Type'].isin(climate_disasters)].copy()\<close>\<close>

definition restrict_climate :: "dataframe \<Rightarrow> dataframe" where
  "restrict_climate df = boolean_index df (isin (map disaster_type df) climate_disasters)"

text \<open>The three \<^verbatim>\<open>fillna\<close> assignments, in the script's order.\<close>

definition handle_missing :: "dataframe \<Rightarrow> dataframe" where
  "handle_missing df0 =
     (let df1 = assign_deaths df0 (fillna (map total_deaths df0) (Some 0));
          df2 = assign_affected df1 (fillna (map total_affected df1) (Some 0));
          df3 = assign_damages df2
                  (fillna (map total_damages df2) (mean (map total_damages df2)))
      in df3)"

definition preprocess :: "dataframe \<Rightarrow> dataframe" where
  "preprocess df = handle_missing (restrict_climate df)"

section \<open>Filter step (lines 65 to 69)\<close>

definition apply_filters :: "dataframe \<Rightarrow> int \<times> int \<Rightarrow> string list \<Rightarrow> dataframe" where
  "apply_filters df_climate selected_years selected_disasters =
     (let msk = mask_and
            (between (map year df_climate) (fst selected_years) (snd selected_years))
            (isin (map disaster_type df_climate) selected_disasters)
      in boolean_index df_climate msk)"

section \<open>Key metrics (lines 72 to 81)\<close>

record metrics =
  events :: nat
  deaths :: real
  affected :: real
  damages :: real

text \<open>\<^verbatim>\<open>len(filtered_df)\<close> and the three \<^verbatim>\<open>.sum()\<close> calls.\<close>

definition key_metrics :: "dataframe \<Rightarrow> metrics" where
  "key_metrics filtered_df =
     \<lparr>events = length filtered_df,
      deaths = col_sum (map total_deaths filtered_df),
      affected = col_sum (map total_affected filtered_df),
      damages = col_sum (map total_damages filtered_df)\<rparr>"

section \<open>Temporal analysis (line 85)\<close>

text \<open>
  \<^verbatim>\<open>groupby(key).size()\<close>: one entry per distinct key, the keys sorted
  (\<^verbatim>\<open>sort=True\<close> is the default), each with the number of rows of its group.
\<close>

definition groupby_size :: "int list \<Rightarrow> (int \<times> nat) list" where
  "groupby_size keys =
     map (\<lambda>k. (k, length (filter (\<lambda>v. v = k) keys))) (sort (unique keys))"

definition yearly_trends :: "dataframe \<Rightarrow> (int \<times> nat) list" where
  "yearly_trends filtered_df = groupby_size (map year filtered_df)"

section \<open>Distribution of the disaster types (lines 99 to 101)\<close>

text \<open>
  \<^verbatim>\<open>Series.value_counts()\<close>: one entry per distinct value with the number of its cells,
  by descending count, values of equal count in order of first appearance.
\<close>

definition value_counts :: "string list \<Rightarrow> (string \<times> nat) list" where
  "value_counts col =
     sort_key (\<lambda>p. - int (snd p))
       (map (\<lambda>k. (k, length (filter (\<lambda>v. v = k) col))) (unique col))"

text \<open>
  \<^verbatim>\<open>disaster_counts.plot(kind='bar', ...)\<close> draws one bar per entry. On a Series without
  entries pandas' bar plot reads position 0 of an empty array of tick positions and
  raises \<^verbatim>\<open>IndexError\<close>.
\<close>

definition plot_bar :: "(string \<times> nat) list \<Rightarrow> py_error + (string \<times> nat) list" where
  "plot_bar disaster_counts =
     (if disaster_counts = [] then Inl IndexError else Inr disaster_counts)"

section \<open>Correlation of the impact measures (lines 108 and 109)\<close>

text \<open>
  \<^verbatim>\<open>DataFrame.corr()\<close> (Pearson, \<^verbatim>\<open>min_periods=1\<close>) runs, for each pair of columns,
  one pass over the rows in which both cells are present, keeping running means, sums of
  squared deviations and the co-moment; the cell is NaN when fewer than \<^verbatim>\<open>min_periods\<close>
  rows took part or when the divisor \<^verbatim>\<open>sqrt(ssqdm_x * ssqdm_y)\<close> is zero, and the
  quotient clipped to [-1, 1] otherwise. The float64 arithmetic is read over the reals;
  a cell is evaluated by the simplifier (\<open>nancorr_example\<close> below).
\<close>

record welford =
  nobs :: nat
  meanx :: real
  meany :: real
  ssqdm_x :: real
  ssqdm_y :: real
  covxy :: real

definition welford_init :: welford where
  "welford_init = \<lparr>nobs = 0, meanx = 0, meany = 0, ssqdm_x = 0, ssqdm_y = 0, covxy = 0\<rparr>"

definition welford_step :: "welford \<Rightarrow> real option \<times> real option \<Rightarrow> welford" where
  "welford_step s cell =
     (case cell of
        (Some vx, Some vy) \<Rightarrow>
          (let n = nobs s + 1;
               dx = vx - meanx s;
               dy = vy - meany s;
               mx = meanx s + 1 / real n * dx;
               my = meany s + 1 / real n * dy
           in \<lparr>nobs = n, meanx = mx, meany = my,
               ssqdm_x = ssqdm_x s + (vx - mx) * dx,
               ssqdm_y = ssqdm_y s + (vy - my) * dy,
               covxy = covxy s + (vx - mx) * dy\<rparr>)
      | _ \<Rightarrow> s)"

definition clip_unit :: "real \<Rightarrow> real" where
  "clip_unit val = (if val > 1 then 1 else if val < - 1 then - 1 else val)"

definition nancorr :: "real option list \<Rightarrow> real option list \<Rightarrow> real option" where
  "nancorr xs ys =
     (let s = foldl welford_step welford_init (zip xs ys)
      in if nobs s < 1 then None
         else (let divisor = sqrt (ssqdm_x s * ssqdm_y s)
               in if divisor \<noteq> 0 then Some (clip_unit (covxy s / divisor)) else None))"

text \<open>
  \<^verbatim>\<open>impact_cols\<close>, in the script's order. The matrix is filled for \<open>yi \<le> xi\<close> and
  mirrored, so the cell at \<open>(a, b)\<close> is the one computed for \<open>(max a b, min a b)\<close>.
\<close>

definition impact_cols :: "dataframe \<Rightarrow> real option list list" where
  "impact_cols df = [map total_deaths df, map total_affected df, map total_damages df]"

definition corr :: "dataframe \<Rightarrow> real option list list" where
  "corr df =
     map (\<lambda>a. map (\<lambda>b. nancorr (impact_cols df ! max a b) (impact_cols df ! min a b))
                 [0 ..< 3])
         [0 ..< 3]"

section \<open>Loading (lines 19 to 34)\<close>

text \<open>
  The file system is a partial map from paths to file contents; \<^verbatim>\<open>os.path.exists\<close>
  asks whether the path is in its domain. The CSV parser is a parameter: it returns the
  table, or the message of the exception it raises. The two \<^verbatim>\<open>st.error\<close> exits of
  \<^verbatim>\<open>load_data\<close>, each followed by \<^verbatim>\<open>return None\<close>, are the two errors.
\<close>

datatype load_error = FileNotFound | LoadException string

definition base_dir :: string where
  "base_dir = ''C:'' @ [CHR 0x5C] @ ''Users'' @ [CHR 0x5C] @ ''ADWAITH CM''
                @ [CHR 0x5C] @ ''Climate week''"

text \<open>\<^verbatim>\<open>os.path.join\<close> of a directory and a relative file name, on Windows.\<close>

definition os_path_join :: "string \<Rightarrow> string \<Rightarrow> string" where
  "os_path_join a b = a @ [CHR 0x5C] @ b"

definition os_path_exists :: "(string \<Rightarrow> 'c option) \<Rightarrow> string \<Rightarrow> bool" where
  "os_path_exists fs p = (fs p \<noteq> None)"

definition pd_read_csv ::
  "('c \<Rightarrow> string + dataframe) \<Rightarrow> (string \<Rightarrow> 'c option) \<Rightarrow> string \<Rightarrow> load_error + dataframe"
where
  "pd_read_csv read_csv fs file_path =
     (case fs file_path of
        None \<Rightarrow> Inl (LoadException ''No such file or directory'')
      | Some c \<Rightarrow> (case read_csv c of Inl msg \<Rightarrow> Inl (LoadException msg) | Inr df \<Rightarrow> Inr df))"

definition load_data ::
  "('c \<Rightarrow> string + dataframe) \<Rightarrow> (string \<Rightarrow> 'c option) \<Rightarrow> load_error + dataframe"
where
  "load_data read_csv fs =
     (let file_path = os_path_join base_dir ''natural_disasters.csv''
      in if \<not> os_path_exists fs file_path then
           (let file_path = os_path_join base_dir ''data2.csv''
            in if \<not> os_path_exists fs file_path then Inl FileNotFound
               else pd_read_csv read_csv fs file_path)
         else pd_read_csv read_csv fs file_path)"

section \<open>Sidebar widgets (lines 50 to 62)\<close>

text \<open>
  A widget returns its default on the first run of the script and the user's current
  choice on every later run; the choice is an input of the run.
\<close>

definition widget_value :: "'a \<Rightarrow> 'a option \<Rightarrow> 'a" where
  "widget_value dflt choice = (case choice of None \<Rightarrow> dflt | Some v \<Rightarrow> v)"

text \<open>
  \<^verbatim>\<open>st.sidebar.slider\<close> refuses a range whose \<^verbatim>\<open>min_value\<close> is not below its
  \<^verbatim>\<open>max_value\<close> with a \<^verbatim>\<open>StreamlitAPIException\<close>.
\<close>

definition st_slider ::
  "int \<Rightarrow> int \<Rightarrow> int \<times> int \<Rightarrow> (int \<times> int) option \<Rightarrow> py_error + int \<times> int"
where
  "st_slider min_value max_value dflt choice =
     (if min_value < max_value then Inr (widget_value dflt choice)
      else Inl StreamlitAPIException)"

text \<open>The default of the year slider: \<^verbatim>\<open>(min(years), max(years))\<close>.\<close>

definition default_years :: "dataframe \<Rightarrow> py_error + int \<times> int" where
  "default_years df_climate =
     (let years = sort (unique (map year df_climate))
      in case py_min years of
           Inl e \<Rightarrow> Inl e
         | Inr lo \<Rightarrow> (case py_max years of Inl e \<Rightarrow> Inl e | Inr hi \<Rightarrow> Inr (lo, hi)))"

text \<open>The options and the default of the multiselect.\<close>

definition default_disasters :: "dataframe \<Rightarrow> string list" where
  "default_disasters df_climate = sort (unique (map disaster_type df_climate))"

section \<open>One run of the script\<close>

record dashboard =
  shown_metrics :: metrics
  shown_trends :: "(int \<times> nat) list"
  shown_distribution :: "(string \<times> nat) list"
  shown_correlation :: "real option list list"
  shown_table :: dataframe

datatype outcome = ErrorShown load_error | Raised py_error | Rendered dashboard

text \<open>
  Everything below the filter, lines 71 to 117, in the script's order: the metrics, the
  yearly trend and its line plot, the type counts and their bar plot, the correlation
  matrix and its heat map, the table. The bar plot is the one call that can raise; an
  exception ends the run, and what follows it is not computed.
\<close>

definition render :: "dataframe \<Rightarrow> py_error + dashboard" where
  "render filtered_df =
     (let shown = key_metrics filtered_df;
          trends = yearly_trends filtered_df;
          disaster_counts = value_counts (map disaster_type filtered_df)
      in case plot_bar disaster_counts of
           Inl e \<Rightarrow> Inl e
         | Inr bars \<Rightarrow>
             Inr \<lparr>shown_metrics = shown,
                  shown_trends = trends,
                  shown_distribution = bars,
                  shown_correlation = corr filtered_df,
                  shown_table = filtered_df\<rparr>)"

definition app ::
  "('c \<Rightarrow> string + dataframe) \<Rightarrow> (string \<Rightarrow> 'c option) \<Rightarrow>
     (int \<times> int) option \<Rightarrow> string list option \<Rightarrow> outcome"
where
  "app read_csv fs year_choice type_choice =
     (case load_data read_csv fs of
        Inl e \<Rightarrow> ErrorShown e
      | Inr df \<Rightarrow>
          (let df_climate = preprocess df
           in case default_years df_climate of
                Inl e \<Rightarrow> Raised e
              | Inr dflt \<Rightarrow>
                  (case st_slider (fst dflt) (snd dflt) dflt year_choice of
                     Inl e \<Rightarrow> Raised e
                   | Inr selected_years \<Rightarrow>
                       (let selected_disasters =
                              widget_value (default_disasters df_climate) type_choice;
                            filtered_df =
                              apply_filters df_climate selected_years selected_disasters
                        in case render filtered_df of
                             Inl e \<Rightarrow> Raised e
                           | Inr shown \<Rightarrow> Rendered shown))))"

section \<open>Notions of the specification\<close>

text \<open>
  The present cells of a column, the arithmetic mean of a list of numbers, and a column
  without variance (its present cells all hold the same number), as the specification
  words them; the theorems below compare the script's computations with these.
\<close>

definition non_missing :: "real option list \<Rightarrow> real list" where
  "non_missing col = List.map_filter (\<lambda>v. v) col"

definition arithmetic_mean :: "real list \<Rightarrow> real" where
  "arithmetic_mean vs = sum_list vs / real (length vs)"

definition constant_col :: "real option list \<Rightarrow> bool" where
  "constant_col col =
     (case non_missing col of [] \<Rightarrow> True | x # xs \<Rightarrow> list_all (\<lambda>y. y = x) xs)"

section \<open>Helper lemmas\<close>

lemma boolean_index_map:
  "boolean_index df (map p df) = filter p df"
  by (induction df) (simp_all add: boolean_index_def)

lemma mask_and_map:
  "mask_and (map p xs) (map q xs) = map (\<lambda>x. p x \<and> q x) xs"
  by (induction xs) (simp_all add: mask_and_def)

lemma apply_filters_filter:
  "apply_filters df (lo, hi) sel =
     filter (\<lambda>r. (lo \<le> year r \<and> year r \<le> hi) \<and> disaster_type r \<in> set sel) df"
proof -
  have b: "between (map year df) lo hi = map (\<lambda>r. lo \<le> year r \<and> year r \<le> hi) df"
    by (simp add: between_def)
  have i: "isin (map disaster_type df) sel = map (\<lambda>r. disaster_type r \<in> set sel) df"
    by (simp add: isin_def)
  show ?thesis
    by (simp add: apply_filters_def b i mask_and_map boolean_index_map)
qed

lemma restrict_climate_filter:
  "restrict_climate df = filter (\<lambda>r. disaster_type r \<in> set climate_disasters) df"
proof -
  have "isin (map disaster_type df) climate_disasters =
          map (\<lambda>r. disaster_type r \<in> set climate_disasters) df"
    by (simp add: isin_def)
  then show ?thesis
    by (simp add: restrict_climate_def boolean_index_map)
qed

lemma set_unique: "set (unique xs) = set xs"
  by (induction xs rule: unique.induct) auto

lemma distinct_unique: "distinct (unique xs)"
  by (induction xs rule: unique.induct) (auto simp: set_unique)

lemma fold_min_Min: "fold min xs (x::int) = Min (set (x # xs))"
  by (rule Min.set_eq_fold[symmetric])

lemma fold_max_Max: "fold max xs (x::int) = Max (set (x # xs))"
  by (rule Max.set_eq_fold[symmetric])

lemma py_min_Min: "xs \<noteq> [] \<Longrightarrow> py_min xs = Inr (Min (set xs))"
proof (cases xs)
  case Nil
  assume "xs \<noteq> []"
  with Nil show ?thesis by simp
next
  case (Cons a list)
  show ?thesis unfolding Cons py_min.simps fold_min_Min ..
qed

lemma py_max_Max: "xs \<noteq> [] \<Longrightarrow> py_max xs = Inr (Max (set xs))"
proof (cases xs)
  case Nil
  assume "xs \<noteq> []"
  with Nil show ?thesis by simp
next
  case (Cons a list)
  show ?thesis unfolding Cons py_max.simps fold_max_Max ..
qed

lemma default_years_nonempty:
  assumes "df \<noteq> []"
  shows "default_years df = Inr (Min (year ` set df), Max (year ` set df))"
proof -
  let ?ys = "sort (unique (map year df))"
  have s: "set ?ys = year ` set df" by (simp add: set_unique)
  have ne: "?ys \<noteq> []" using assms s by (metis empty_set image_is_empty set_empty)
  show ?thesis
    using py_min_Min[OF ne] py_max_Max[OF ne] s by (simp add: default_years_def)
qed

lemma groupby_size_keys: "map fst (groupby_size keys) = sort (unique keys)"
  by (simp add: groupby_size_def comp_def)

lemma groupby_size_counts:
  "map snd (groupby_size keys) =
     map (\<lambda>k. length (filter (\<lambda>v. v = k) keys)) (map fst (groupby_size keys))"
  by (simp add: groupby_size_def comp_def)

lemma count_partition:
  assumes "distinct ks" and "set ks = set keys"
  shows "sum_list (map (\<lambda>k. length (filter (\<lambda>v. v = k) keys)) ks) = length keys"
proof -
  have c: "(\<lambda>k. length (filter (\<lambda>v. v = k) keys)) = count_list keys"
    by (rule ext) (simp add: count_list_eq_length_filter eq_commute)
  have "sum_list (map (count_list keys) ks) = sum (count_list keys) (set ks)"
    using assms(1) by (simp add: sum_list_distinct_conv_sum_set)
  also have "\<dots> = length keys"
    using assms(2) by (simp add: sum_count_set)
  finally show ?thesis by (simp add: c)
qed

lemma groupby_size_total: "sum_list (map snd (groupby_size keys)) = length keys"
proof -
  have "distinct (sort (unique keys))" by (simp add: distinct_unique)
  moreover have "set (sort (unique keys)) = set keys" by (simp add: set_unique)
  ultimately show ?thesis
    using count_partition[of "sort (unique keys)" keys]
    by (simp add: groupby_size_def comp_def)
qed

lemma length_filter_year:
  "length (filter (\<lambda>v. v = k) (map year df)) = length (filter (\<lambda>r. year r = k) df)"
  by (induction df) simp_all

lemma map2_map_same: "map2 f xs (map g xs) = map (\<lambda>x. f x (g x)) xs"
  by (induction xs) simp_all

lemma assign_deaths_fillna:
  "assign_deaths df (fillna (map total_deaths df) val) =
     map (\<lambda>r. r\<lparr>total_deaths := (case total_deaths r of None \<Rightarrow> val | Some x \<Rightarrow> Some x)\<rparr>) df"
proof -
  have "fillna (map total_deaths df) val =
          map (\<lambda>r. case total_deaths r of None \<Rightarrow> val | Some x \<Rightarrow> Some x) df"
    by (simp add: fillna_def)
  then show ?thesis by (simp add: assign_deaths_def map2_map_same)
qed

lemma assign_affected_fillna:
  "assign_affected df (fillna (map total_affected df) val) =
     map (\<lambda>r. r\<lparr>total_affected := (case total_affected r of None \<Rightarrow> val | Some x \<Rightarrow> Some x)\<rparr>) df"
proof -
  have "fillna (map total_affected df) val =
          map (\<lambda>r. case total_affected r of None \<Rightarrow> val | Some x \<Rightarrow> Some x) df"
    by (simp add: fillna_def)
  then show ?thesis by (simp add: assign_affected_def map2_map_same)
qed

lemma assign_damages_fillna:
  "assign_damages df (fillna (map total_damages df) val) =
     map (\<lambda>r. r\<lparr>total_damages := (case total_damages r of None \<Rightarrow> val | Some x \<Rightarrow> Some x)\<rparr>) df"
proof -
  have "fillna (map total_damages df) val =
          map (\<lambda>r. case total_damages r of None \<Rightarrow> val | Some x \<Rightarrow> Some x) df"
    by (simp add: fillna_def)
  then show ?thesis by (simp add: assign_damages_def map2_map_same)
qed

lemma handle_missing_rows:
  "handle_missing df0 =
     map (\<lambda>r. r\<lparr>total_deaths := (case total_deaths r of None \<Rightarrow> Some 0 | Some x \<Rightarrow> Some x),
                total_affected := (case total_affected r of None \<Rightarrow> Some 0 | Some x \<Rightarrow> Some x),
                total_damages := (case total_damages r of
                                    None \<Rightarrow> mean (map total_damages df0)
                                  | Some x \<Rightarrow> Some x)\<rparr>) df0"
  by (simp add: handle_missing_def assign_deaths_fillna assign_affected_fillna
      assign_damages_fillna comp_def cong: option.case_cong)

lemma col_sum_non_missing: "col_sum col = sum_list (non_missing col)"
  by (induction col)
     (simp_all add: col_sum_def non_missing_def map_filter_simps split: option.split)

lemma count_non_missing:
  "length (filter (\<lambda>v. v \<noteq> None) col) = length (non_missing col)"
  by (induction col) (simp_all add: non_missing_def map_filter_simps split: option.split)

lemma mean_arithmetic_mean:
  "mean col = (if non_missing col = [] then None
               else Some (arithmetic_mean (non_missing col)))"
  unfolding mean_def Let_def count_non_missing col_sum_non_missing
  by (simp add: arithmetic_mean_def)

lemma welford_step_x:
  assumes "ssqdm_x s = 0"
    and "if nobs s = 0 then meanx s = 0 else meanx s = c"
    and "fst cell = None \<or> fst cell = Some c"
  shows "ssqdm_x (welford_step s cell) = 0
       \<and> (if nobs (welford_step s cell) = 0 then meanx (welford_step s cell) = 0
          else meanx (welford_step s cell) = c)"
  using assms
  by (cases cell) (auto simp add: welford_step_def Let_def split: option.splits if_splits)

lemma welford_step_y:
  assumes "ssqdm_y s = 0"
    and "if nobs s = 0 then meany s = 0 else meany s = c"
    and "snd cell = None \<or> snd cell = Some c"
  shows "ssqdm_y (welford_step s cell) = 0
       \<and> (if nobs (welford_step s cell) = 0 then meany (welford_step s cell) = 0
          else meany (welford_step s cell) = c)"
  using assms
  by (cases cell) (auto simp add: welford_step_def Let_def split: option.splits if_splits)

lemma welford_fold_x:
  assumes "\<forall>cell \<in> set cells. fst cell = None \<or> fst cell = Some c"
    and "ssqdm_x s = 0"
    and "if nobs s = 0 then meanx s = 0 else meanx s = c"
  shows "ssqdm_x (foldl welford_step s cells) = 0"
  using assms
proof (induction cells arbitrary: s)
  case Nil
  then show ?case by simp
next
  case (Cons cell cells)
  have "fst cell = None \<or> fst cell = Some c" using Cons.prems(1) by simp
  from welford_step_x[OF Cons.prems(2) Cons.prems(3) this] Cons.prems(1)
  show ?case by (simp add: Cons.IH)
qed

lemma welford_fold_y:
  assumes "\<forall>cell \<in> set cells. snd cell = None \<or> snd cell = Some c"
    and "ssqdm_y s = 0"
    and "if nobs s = 0 then meany s = 0 else meany s = c"
  shows "ssqdm_y (foldl welford_step s cells) = 0"
  using assms
proof (induction cells arbitrary: s)
  case Nil
  then show ?case by simp
next
  case (Cons cell cells)
  have "snd cell = None \<or> snd cell = Some c" using Cons.prems(1) by simp
  from welford_step_y[OF Cons.prems(2) Cons.prems(3) this] Cons.prems(1)
  show ?case by (simp add: Cons.IH)
qed

lemma non_missing_set: "set (non_missing col) = {x. Some x \<in> set col}"
  by (induction col) (auto simp add: non_missing_def map_filter_simps split: option.splits)

lemma constant_col_cells:
  assumes "constant_col col"
  shows "\<exists>c. \<forall>v \<in> set col. v = None \<or> v = Some c"
proof (cases "non_missing col")
  case Nil
  then have "{x. Some x \<in> set col} = {}" using non_missing_set[of col] by simp
  then have "\<forall>v \<in> set col. v = None" by (metis empty_Collect_eq not_Some_eq)
  then show ?thesis by blast
next
  case (Cons x xs)
  with assms have "\<forall>y \<in> set xs. y = x" by (simp add: constant_col_def list_all_iff)
  then have "\<forall>y \<in> set (non_missing col). y = x" by (simp add: Cons)
  then have "\<forall>v \<in> set col. v = None \<or> v = Some x"
    by (metis mem_Collect_eq non_missing_set not_Some_eq)
  then show ?thesis by blast
qed

lemma nancorr_constant_x:
  assumes "constant_col xs"
  shows "nancorr xs ys = None"
proof -
  from constant_col_cells[OF assms] obtain c where
    c: "\<forall>v \<in> set xs. v = None \<or> v = Some c" by blast
  have "\<forall>cell \<in> set (zip xs ys). fst cell = None \<or> fst cell = Some c"
    using c by (auto dest: set_zip_leftD)
  then have "ssqdm_x (foldl welford_step welford_init (zip xs ys)) = 0"
    by (rule welford_fold_x) (simp_all add: welford_init_def)
  then show ?thesis by (simp add: nancorr_def Let_def)
qed

lemma nancorr_constant_y:
  assumes "constant_col ys"
  shows "nancorr xs ys = None"
proof -
  from constant_col_cells[OF assms] obtain c where
    c: "\<forall>v \<in> set ys. v = None \<or> v = Some c" by blast
  have "\<forall>cell \<in> set (zip xs ys). snd cell = None \<or> snd cell = Some c"
    using c by (auto dest: set_zip_rightD)
  then have "ssqdm_y (foldl welford_step welford_init (zip xs ys)) = 0"
    by (rule welford_fold_y) (simp_all add: welford_init_def)
  then show ?thesis by (simp add: nancorr_def Let_def)
qed

lemma constant_col_short: "length col < 2 \<Longrightarrow> constant_col col"
proof -
  assume "length col < 2"
  then consider "col = []" | v where "col = [v]"
    by (cases col) (auto simp: less_Suc_eq numeral_2_eq_2 length_Suc_conv)
  then show ?thesis
    by cases (auto simp add: constant_col_def non_missing_def map_filter_simps split: option.splits)
qed

lemma corr_cell:
  assumes "a < 3" and "b < 3"
  shows "corr v ! a ! b = nancorr (impact_cols v ! max a b) (impact_cols v ! min a b)"
  using assms by (simp add: corr_def)

lemma impact_cols_length:
  assumes "k < 3"
  shows "length (impact_cols v ! k) = length v"
proof -
  from assms consider "k = 0" | "k = 1" | "k = 2" by linarith
  then show ?thesis by cases (simp_all add: impact_cols_def)
qed

lemma corr_cell_constant:
  assumes "a < 3" and "b < 3" and "constant_col (impact_cols v ! a) \<or> constant_col (impact_cols v ! b)"
  shows "corr v ! a ! b = None"
proof -
  have "constant_col (impact_cols v ! max a b) \<or> constant_col (impact_cols v ! min a b)"
    using assms(3) by (cases "a \<le> b") (auto simp add: max_def min_def)
  then show ?thesis
    unfolding corr_cell[OF assms(1,2)]
    using nancorr_constant_x nancorr_constant_y by blast
qed

lemma corr_short:
  assumes "length v < 2"
  shows "corr v = [[None, None, None], [None, None, None], [None, None, None]]"
proof -
  have c: "\<And>k. k < 3 \<Longrightarrow> constant_col (impact_cols v ! k)"
    using assms by (simp add: constant_col_short impact_cols_length)
  have n: "\<And>a b. a < 3 \<Longrightarrow> b < 3 \<Longrightarrow>
      nancorr (impact_cols v ! a) (impact_cols v ! b) = None"
    using c nancorr_constant_x by blast
  show ?thesis
    by (simp add: corr_def upt_rec n)
qed

lemma nancorr_example: "nancorr [Some 0, Some 2] [Some 1, Some 3] = Some 1"
  by (simp add: nancorr_def welford_step_def welford_init_def Let_def clip_unit_def)

lemma restrict_climate_types:
  "restrict_climate df =
     filter (\<lambda>r. disaster_type r \<in> {''Flood'', ''Storm'', ''Wildfire'', ''Extreme temperature''})
       df"
  by (simp add: restrict_climate_filter climate_disasters_def)

lemma value_counts_empty_iff: "value_counts col = [] \<longleftrightarrow> col = []"
proof -
  have "length (value_counts col) = length (unique col)"
    by (simp add: value_counts_def)
  moreover have "unique col = [] \<longleftrightarrow> col = []"
    by (cases col) simp_all
  ultimately show ?thesis by (metis length_0_conv)
qed

lemma render_empty: "render [] = Inl IndexError"
  by (simp add: render_def value_counts_def plot_bar_def)

lemma render_nonempty:
  assumes "filtered_df \<noteq> []"
  shows "render filtered_df =
           Inr \<lparr>shown_metrics = key_metrics filtered_df,
                shown_trends = yearly_trends filtered_df,
                shown_distribution = value_counts (map disaster_type filtered_df),
                shown_correlation = corr filtered_df,
                shown_table = filtered_df\<rparr>"
  using assms by (simp add: render_def plot_bar_def value_counts_empty_iff)

text \<open>
  Two runs that end before the filter: a file whose records all have one year, where the
  slider refuses its range, and a file without a climate record, where \<^verbatim>\<open>min(years)\<close>
  raises.
\<close>

lemma app_one_year_refused:
  "app (\<lambda>c. Inr c)
     (\<lambda>p. if p = os_path_join base_dir ''natural_disasters.csv''
           then Some [\<lparr>year = 2000, disaster_type = ''Flood'', total_deaths = Some 1,
                        total_affected = Some 2, total_damages = Some 3\<rparr>]
           else None)
     None None = Raised StreamlitAPIException"
  by (simp add: app_def load_data_def os_path_exists_def pd_read_csv_def preprocess_def
      restrict_climate_types handle_missing_rows default_years_def st_slider_def)

lemma app_no_climate_record:
  "app (\<lambda>c. Inr c)
     (\<lambda>p. if p = os_path_join base_dir ''natural_disasters.csv''
           then Some [\<lparr>year = 2000, disaster_type = ''Earthquake'', total_deaths = Some 1,
                        total_affected = Some 2, total_damages = Some 3\<rparr>]
           else None)
     None None = Raised ValueError"
  by (simp add: app_def load_data_def os_path_exists_def pd_read_csv_def preprocess_def
      restrict_climate_types handle_missing_rows default_years_def)

section \<open>The filter keeps exactly the rows in range and of a selected type\<close>

text \<open>
  Claim C1. For every ClimateSubset and every criteria, the filtered view is the
  ClimateSubset's rows, in order, whose year lies between the two bounds (both inclusive)
  and whose disaster type is one of the selected types; so a row appears in the view if
  and only if it is a row of the ClimateSubset with its year in range and its type
  selected.
\<close>

theorem filter_row_iff:
  "apply_filters df_climate (lo, hi) selected =
     filter (\<lambda>r. (lo \<le> year r \<and> year r \<le> hi) \<and> disaster_type r \<in> set selected) df_climate
   \<and> (r \<in> set (apply_filters df_climate (lo, hi) selected) \<longleftrightarrow>
        r \<in> set df_climate \<and> lo \<le> year r \<and> year r \<le> hi \<and> disaster_type r \<in> set selected)"
  by (auto simp add: apply_filters_filter)

text \<open>The spec's example: years 2000, 2001, 2002, range (2001, 2002), types {Flood}.\<close>

theorem filter_row_iff_witness:
  "apply_filters
     [\<lparr>year = 2000, disaster_type = ''Flood'', total_deaths = Some 1,
        total_affected = Some 2, total_damages = Some 3\<rparr>,
      \<lparr>year = 2001, disaster_type = ''Flood'', total_deaths = Some 4,
        total_affected = Some 5, total_damages = Some 6\<rparr>,
      \<lparr>year = 2002, disaster_type = ''Storm'', total_deaths = Some 7,
        total_affected = Some 8, total_damages = Some 9\<rparr>]
     (2001, 2002) [''Flood'']
   = [\<lparr>year = 2001, disaster_type = ''Flood'', total_deaths = Some 4,
        total_affected = Some 5, total_damages = Some 6\<rparr>]"
  by (simp add: filter_row_iff)

section \<open>The allow-list restriction is idempotent\<close>

text \<open>
  Claim C8. Restricting a Dataset to the four climate disaster types twice gives the same
  rows in the same order as restricting it once.
\<close>

theorem allow_list_idempotent:
  "restrict_climate (restrict_climate df) = restrict_climate df"
  by (simp add: restrict_climate_filter)

section \<open>Filtering with the default criteria is the identity\<close>

text \<open>
  Claim C10. On a non-empty ClimateSubset the slider's default is the pair of the least and
  the greatest year present, the multiselect's default holds exactly the disaster types
  present, and filtering with these two defaults returns the ClimateSubset itself. (On an
  empty ClimateSubset \<^verbatim>\<open>min(years)\<close> raises and there is no default.)
\<close>

theorem default_filter_identity:
  assumes "df_climate \<noteq> []"
  shows "default_years df_climate = Inr (Min (year ` set df_climate), Max (year ` set df_climate))
       \<and> set (default_disasters df_climate) = disaster_type ` set df_climate
       \<and> apply_filters df_climate (Min (year ` set df_climate), Max (year ` set df_climate))
            (default_disasters df_climate) = df_climate"
proof -
  have t: "set (default_disasters df_climate) = disaster_type ` set df_climate"
    by (simp add: default_disasters_def set_unique)
  have "filter (\<lambda>r. (Min (year ` set df_climate) \<le> year r \<and> year r \<le> Max (year ` set df_climate))
            \<and> disaster_type r \<in> set (default_disasters df_climate)) df_climate = df_climate"
    by (rule filter_True) (simp add: t)
  then show ?thesis
    using default_years_nonempty[OF assms] t by (simp add: apply_filters_filter)
qed

theorem default_filter_identity_witness:
  "default_years
     [\<lparr>year = 2002, disaster_type = ''Storm'', total_deaths = Some 1,
        total_affected = Some 2, total_damages = Some 3\<rparr>,
      \<lparr>year = 2000, disaster_type = ''Flood'', total_deaths = Some 4,
        total_affected = Some 5, total_damages = Some 6\<rparr>] = Inr (2000, 2002)
   \<and> apply_filters
     [\<lparr>year = 2002, disaster_type = ''Storm'', total_deaths = Some 1,
        total_affected = Some 2, total_damages = Some 3\<rparr>,
      \<lparr>year = 2000, disaster_type = ''Flood'', total_deaths = Some 4,
        total_affected = Some 5, total_damages = Some 6\<rparr>]
     (2000, 2002)
     (default_disasters
       [\<lparr>year = 2002, disaster_type = ''Storm'', total_deaths = Some 1,
          total_affected = Some 2, total_damages = Some 3\<rparr>,
        \<lparr>year = 2000, disaster_type = ''Flood'', total_deaths = Some 4,
          total_affected = Some 5, total_damages = Some 6\<rparr>])
   = [\<lparr>year = 2002, disaster_type = ''Storm'', total_deaths = Some 1,
        total_affected = Some 2, total_damages = Some 3\<rparr>,
      \<lparr>year = 2000, disaster_type = ''Flood'', total_deaths = Some 4,
        total_affected = Some 5, total_damages = Some 6\<rparr>]"
  using default_filter_identity
    [of "[\<lparr>year = 2002, disaster_type = ''Storm'', total_deaths = Some 1,
            total_affected = Some 2, total_damages = Some 3\<rparr>,
          \<lparr>year = 2000, disaster_type = ''Flood'', total_deaths = Some 4,
            total_affected = Some 5, total_damages = Some 6\<rparr>]"]
  by simp

section \<open>The yearly trend\<close>

text \<open>
  Claim C7. For every filtered view, the yearly trend lists the years that occur in the
  view in strictly ascending order, each exactly once, each paired with the number of the
  view's rows of that year; the counts add up to the number of rows.
\<close>

theorem yearly_trends_grouped_sorted:
  "sorted_wrt (<) (map fst (yearly_trends v))
   \<and> set (map fst (yearly_trends v)) = year ` set v
   \<and> map snd (yearly_trends v) =
       map (\<lambda>y. length (filter (\<lambda>r. year r = y) v)) (map fst (yearly_trends v))
   \<and> sum_list (map snd (yearly_trends v)) = length v"
proof -
  have k: "map fst (yearly_trends v) = sort (unique (map year v))"
    by (simp add: yearly_trends_def groupby_size_keys)
  have 1: "sorted_wrt (<) (map fst (yearly_trends v))"
    by (simp add: k strict_sorted_iff distinct_unique)
  have 2: "set (map fst (yearly_trends v)) = year ` set v"
    by (simp add: k set_unique)
  have 3: "map snd (yearly_trends v) =
       map (\<lambda>y. length (filter (\<lambda>r. year r = y) v)) (map fst (yearly_trends v))"
  proof -
    have f: "(\<lambda>k. length (filter (\<lambda>v. v = k) (map year v))) =
               (\<lambda>y. length (filter (\<lambda>r. year r = y) v))"
      by (rule ext) (rule length_filter_year)
    show ?thesis
      using groupby_size_counts[of "map year v"] unfolding yearly_trends_def f .
  qed
  have 4: "sum_list (map snd (yearly_trends v)) = length v"
    using groupby_size_total[of "map year v"] by (simp add: yearly_trends_def)
  from 1 2 3 4 show ?thesis by blast
qed

theorem yearly_trends_grouped_sorted_witness:
  "map fst (yearly_trends
     [\<lparr>year = 2002, disaster_type = ''Storm'', total_deaths = Some 1,
        total_affected = Some 2, total_damages = Some 3\<rparr>,
      \<lparr>year = 2000, disaster_type = ''Flood'', total_deaths = Some 4,
        total_affected = Some 5, total_damages = Some 6\<rparr>,
      \<lparr>year = 2002, disaster_type = ''Flood'', total_deaths = Some 4,
        total_affected = Some 5, total_damages = Some 6\<rparr>]) = [2000, 2002]
   \<and> map snd (yearly_trends
     [\<lparr>year = 2002, disaster_type = ''Storm'', total_deaths = Some 1,
        total_affected = Some 2, total_damages = Some 3\<rparr>,
      \<lparr>year = 2000, disaster_type = ''Flood'', total_deaths = Some 4,
        total_affected = Some 5, total_damages = Some 6\<rparr>,
      \<lparr>year = 2002, disaster_type = ''Flood'', total_deaths = Some 4,
        total_affected = Some 5, total_damages = Some 6\<rparr>]) = [1, 2]"
proof -
  let ?v = "[\<lparr>year = 2002, disaster_type = ''Storm'', total_deaths = Some 1,
        total_affected = Some 2, total_damages = Some 3\<rparr>,
      \<lparr>year = 2000, disaster_type = ''Flood'', total_deaths = Some 4,
        total_affected = Some 5, total_damages = Some (6::real)\<rparr>,
      \<lparr>year = 2002, disaster_type = ''Flood'', total_deaths = Some 4,
        total_affected = Some 5, total_damages = Some 6\<rparr>]"
  have k: "map fst (yearly_trends ?v) = [2000, 2002]"
    by (simp add: yearly_trends_def groupby_size_def)
  from yearly_trends_grouped_sorted[of ?v] have
    "map snd (yearly_trends ?v) =
       map (\<lambda>y. length (filter (\<lambda>r. year r = y) ?v)) (map fst (yearly_trends ?v))"
    by blast
  then have "map snd (yearly_trends ?v) = [1, 2]"
    unfolding k by simp
  with k show ?thesis by blast
qed

section \<open>An empty selection\<close>

text \<open>
  Claim C3 asks that a run with no selected type raises no exception anywhere. The
  script does not achieve that. For every ClimateSubset and every year range the view is
  empty, the event count and the three sums are 0 and the yearly trend is empty, as
  claimed; but the type counts are then empty too, and their bar plot at line 101 raises
  \<^verbatim>\<open>IndexError\<close>, so the run ends there. On a file of two records of the years 2000 and
  2001, with the multiselect cleared, the script ends with that exception.
\<close>

theorem empty_selection_raises:
  "apply_filters df_climate selected_years [] = []
   \<and> key_metrics (apply_filters df_climate selected_years []) =
        \<lparr>events = 0, deaths = 0, affected = 0, damages = 0\<rparr>
   \<and> yearly_trends (apply_filters df_climate selected_years []) = []
   \<and> render (apply_filters df_climate selected_years []) = Inl IndexError
   \<and> app (\<lambda>c. Inr c)
        (\<lambda>p. if p = os_path_join base_dir ''natural_disasters.csv''
              then Some [\<lparr>year = 2000, disaster_type = ''Flood'', total_deaths = Some 1,
                           total_affected = Some 2, total_damages = Some 3\<rparr>,
                         \<lparr>year = 2001, disaster_type = ''Storm'', total_deaths = Some 4,
                           total_affected = Some 5, total_damages = Some 6\<rparr>]
              else None)
        None (Some []) = Raised IndexError"
proof -
  have e: "\<And>df sy. apply_filters df sy [] = []"
  proof -
    fix df :: dataframe and sy :: "int \<times> int"
    show "apply_filters df sy [] = []"
      using apply_filters_filter[of df "fst sy" "snd sy" "[]"] by simp
  qed
  have r: "render [] = Inl IndexError"
    by (rule render_empty)
  let ?t = "[\<lparr>year = 2000, disaster_type = ''Flood'', total_deaths = Some 1,
               total_affected = Some 2, total_damages = Some (3::real)\<rparr>,
             \<lparr>year = 2001, disaster_type = ''Storm'', total_deaths = Some 4,
               total_affected = Some 5, total_damages = Some 6\<rparr>]"
  have l: "load_data (\<lambda>c. Inr c)
        (\<lambda>p. if p = os_path_join base_dir ''natural_disasters.csv'' then Some ?t else None)
      = Inr ?t"
    by (simp add: load_data_def os_path_exists_def pd_read_csv_def)
  have p: "preprocess ?t = ?t"
    by (simp add: preprocess_def restrict_climate_filter climate_disasters_def
        handle_missing_rows)
  have d: "default_years ?t = Inr (2000, 2001)"
    using default_years_nonempty[of ?t] by simp
  have a: "app (\<lambda>c. Inr c)
        (\<lambda>p. if p = os_path_join base_dir ''natural_disasters.csv'' then Some ?t else None)
        None (Some []) = Raised IndexError"
    unfolding app_def l
    by (simp add: p d st_slider_def widget_value_def e r)
  show ?thesis
    using a by (simp add: e r key_metrics_def col_sum_def yearly_trends_def groupby_size_def)
qed

section \<open>Loading with a fallback file name\<close>

text \<open>
  Claim C5. \<^verbatim>\<open>load_data\<close> reads the primary file when it exists; when the primary is
  absent and the fallback exists and parses, it returns the fallback's table; when neither
  exists it fails with FileNotFound, and the script then shows only the error, whatever
  the widgets hold: nothing after the load runs.
\<close>

theorem load_fallback:
  "(fs (os_path_join base_dir ''natural_disasters.csv'') = Some c
      \<longrightarrow> load_data read_csv fs =
            (case read_csv c of Inl msg \<Rightarrow> Inl (LoadException msg) | Inr df \<Rightarrow> Inr df))
   \<and> (fs (os_path_join base_dir ''natural_disasters.csv'') = None
      \<and> fs (os_path_join base_dir ''data2.csv'') = Some c \<and> read_csv c = Inr df
      \<longrightarrow> load_data read_csv fs = Inr df)
   \<and> (fs (os_path_join base_dir ''natural_disasters.csv'') = None
      \<and> fs (os_path_join base_dir ''data2.csv'') = None
      \<longrightarrow> load_data read_csv fs = Inl FileNotFound
          \<and> app read_csv fs year_choice type_choice = ErrorShown FileNotFound)"
  by (simp add: load_data_def os_path_exists_def pd_read_csv_def app_def)

theorem load_fallback_witness:
  "load_data (\<lambda>c. Inr c)
     (\<lambda>p. if p = os_path_join base_dir ''data2.csv'' then Some [] else None) = Inr []
   \<and> load_data (\<lambda>c. Inr c) (\<lambda>p. None) = Inl FileNotFound
   \<and> app (\<lambda>c. Inr c) (\<lambda>p. None) None None = ErrorShown FileNotFound"
  using load_fallback[of "\<lambda>p. if p = os_path_join base_dir ''data2.csv'' then Some [] else None"
      "[]" "\<lambda>c. Inr c" "[]" None None]
    load_fallback[of "\<lambda>p. None" "[]" "\<lambda>c. Inr c" "[]" None None]
  by (simp add: os_path_join_def)

section \<open>Filling the missing values\<close>

text \<open>
  Claim C2 asks that, for every Dataset, preprocessing replaces every missing damages
  value with the arithmetic mean of the non-missing damages values of the type-filtered
  subset. The script does not achieve that when the type-filtered subset has no damages
  value: the mean is then NaN and the fill leaves the cell missing. For a Dataset of an
  earthquake record with damages 500 and a flood record without impact values, the
  type-filtered subset is the flood record alone; its deaths and affected become 0 and
  its damages cell is still missing after preprocessing.
\<close>

theorem missing_damages_not_replaced:
  "preprocess
     [\<lparr>year = 2000, disaster_type = ''Earthquake'', total_deaths = Some 1,
        total_affected = Some 2, total_damages = Some 500\<rparr>,
      \<lparr>year = 2001, disaster_type = ''Flood'', total_deaths = None,
        total_affected = None, total_damages = None\<rparr>]
   = [\<lparr>year = 2001, disaster_type = ''Flood'', total_deaths = Some 0,
        total_affected = Some 0, total_damages = None\<rparr>]"
  by (simp add: preprocess_def restrict_climate_types handle_missing_rows mean_def)

text \<open>
  What the script does achieve, for every Dataset: the rows of the type-filtered subset
  are kept with their years and types, a missing deaths or affected cell becomes 0, a
  present cell is kept, and a missing damages cell becomes the arithmetic mean of the
  present damages cells of the type-filtered subset when there is at least one.
\<close>

lemma preprocess_cells:
  assumes "sub = filter (\<lambda>r. disaster_type r \<in>
                   {''Flood'', ''Storm'', ''Wildfire'', ''Extreme temperature''}) df"
  shows "length (preprocess df) = length sub
   \<and> (i < length sub \<longrightarrow>
        year (preprocess df ! i) = year (sub ! i)
      \<and> disaster_type (preprocess df ! i) = disaster_type (sub ! i)
      \<and> total_deaths (preprocess df ! i) =
          Some (case total_deaths (sub ! i) of None \<Rightarrow> 0 | Some x \<Rightarrow> x)
      \<and> total_affected (preprocess df ! i) =
          Some (case total_affected (sub ! i) of None \<Rightarrow> 0 | Some x \<Rightarrow> x)
      \<and> (\<forall>x. total_damages (sub ! i) = Some x \<longrightarrow>
              total_damages (preprocess df ! i) = Some x)
      \<and> (total_damages (sub ! i) = None \<and> non_missing (map total_damages sub) \<noteq> [] \<longrightarrow>
          total_damages (preprocess df ! i) =
            Some (arithmetic_mean (non_missing (map total_damages sub)))))"
  unfolding assms restrict_climate_types[symmetric]
  by (simp add: preprocess_def handle_missing_rows mean_arithmetic_mean
      split: option.split)

text \<open>
  The damages column [10, missing, 30] of three climate records, next to an earthquake
  record with damages 1000 that takes no part in the mean, becomes [10, 20, 30].
\<close>

lemma preprocess_example:
  "map total_damages (preprocess
     [\<lparr>year = 1999, disaster_type = ''Earthquake'', total_deaths = Some 9,
        total_affected = Some 9, total_damages = Some 1000\<rparr>,
      \<lparr>year = 2000, disaster_type = ''Flood'', total_deaths = Some 1,
        total_affected = None, total_damages = Some 10\<rparr>,
      \<lparr>year = 2001, disaster_type = ''Storm'', total_deaths = None,
        total_affected = Some 7, total_damages = None\<rparr>,
      \<lparr>year = 2002, disaster_type = ''Wildfire'', total_deaths = Some 3,
        total_affected = Some 8, total_damages = Some 30\<rparr>]) = [Some 10, Some 20, Some 30]"
  by (simp add: preprocess_def restrict_climate_types handle_missing_rows mean_def
      col_sum_def)

section \<open>A subset with every damages cell missing\<close>

text \<open>
  Claim C6 asks that no damages cell is missing after preprocessing, also when every
  damages cell of the type-restricted subset is missing. The script does not achieve
  that: the mean of a column without present cells is NaN, and \<^verbatim>\<open>fillna\<close> with NaN
  fills nothing. For a Dataset of one flood record without a damages value, the damages
  column after preprocessing is still [missing].
\<close>

theorem all_missing_damages_stay_missing:
  "map total_damages (preprocess
     [\<lparr>year = 2000, disaster_type = ''Flood'', total_deaths = None,
        total_affected = None, total_damages = None\<rparr>]) = [None]"
  by (simp add: preprocess_def restrict_climate_filter climate_disasters_def
      handle_missing_rows mean_def)

text \<open>
  What the script does achieve: after preprocessing no deaths or affected cell is missing,
  and no damages cell is missing when the type-restricted subset has a present one.
\<close>

lemma preprocess_non_missing:
  assumes "r \<in> set (preprocess df)"
  shows "total_deaths r \<noteq> None \<and> total_affected r \<noteq> None
       \<and> (non_missing (map total_damages (restrict_climate df)) \<noteq> [] \<longrightarrow>
            total_damages r \<noteq> None)"
  using assms
  by (auto simp add: preprocess_def handle_missing_rows mean_arithmetic_mean
      split: option.splits)

section \<open>Correlation on a column without variance\<close>

text \<open>
  Claim C4. For every filtered view and every impact column \<open>k\<close> (0 deaths, 1 affected,
  2 damages): when the view has fewer than 2 rows or the present cells of column \<open>k\<close> all
  hold the same number, then the correlation cells \<open>(k, j)\<close> and \<open>(j, k)\<close> are NaN for every
  column \<open>j\<close>, hence neither 0 nor 1; and a view with fewer than 2 rows gives the matrix
  with NaN in all nine cells.
\<close>

theorem corr_nan_on_degenerate_column:
  assumes "k < 3" and "j < 3"
    and "length v < 2 \<or> constant_col (impact_cols v ! k)"
  shows "corr v ! k ! j = None \<and> corr v ! j ! k = None
       \<and> (length v < 2 \<longrightarrow>
            corr v = [[None, None, None], [None, None, None], [None, None, None]])"
proof -
  have c: "constant_col (impact_cols v ! k)"
    using assms(1,3) by (auto simp add: constant_col_short impact_cols_length)
  show ?thesis
    using corr_cell_constant[OF assms(1,2), of v] corr_cell_constant[OF assms(2,1), of v] c corr_short[of v]
    by blast
qed

text \<open>
  A one-row view, and a two-row view whose deaths column holds 4 twice: the cells of the
  deaths column against the affected column are NaN.
\<close>

theorem corr_nan_on_degenerate_column_witness:
  "corr [\<lparr>year = 2000, disaster_type = ''Flood'', total_deaths = Some 4,
        total_affected = Some 5, total_damages = Some 6\<rparr>] =
     [[None, None, None], [None, None, None], [None, None, None]]
   \<and> corr [\<lparr>year = 2000, disaster_type = ''Flood'', total_deaths = Some 4,
        total_affected = Some 1, total_damages = Some 2\<rparr>,
      \<lparr>year = 2001, disaster_type = ''Storm'', total_deaths = Some 4,
        total_affected = Some 3, total_damages = Some 6\<rparr>] ! 0 ! 1 = None
   \<and> corr [\<lparr>year = 2000, disaster_type = ''Flood'', total_deaths = Some 4,
        total_affected = Some 1, total_damages = Some 2\<rparr>,
      \<lparr>year = 2001, disaster_type = ''Storm'', total_deaths = Some 4,
        total_affected = Some 3, total_damages = Some 6\<rparr>] ! 1 ! 0 = None"
  using corr_nan_on_degenerate_column
    [of 0 0 "[\<lparr>year = 2000, disaster_type = ''Flood'', total_deaths = Some 4,
        total_affected = Some 5, total_damages = Some 6\<rparr>]"]
    corr_nan_on_degenerate_column
    [of 0 1 "[\<lparr>year = 2000, disaster_type = ''Flood'', total_deaths = Some 4,
        total_affected = Some 1, total_damages = Some 2\<rparr>,
      \<lparr>year = 2001, disaster_type = ''Storm'', total_deaths = Some 4,
        total_affected = Some 3, total_damages = Some 6\<rparr>]"]
  by (simp add: impact_cols_def constant_col_def non_missing_def map_filter_simps)

end
